theory Spec2Isabelle
  imports Main "HOL-Library.Monad_Syntax"
begin

section \<open>Item Web Builder: data model\<close>

text \<open>
  The application state of \<^verbatim>\<open>ItemWebBuilder.jsx\<close>. JavaScript objects with a fixed set of
  properties are records; arrays are lists; an optional property (\<^verbatim>\<open>x?: number\<close>) is an
  option, \<open>None\<close> when the property is absent. Several entities have properties called
  \<^verbatim>\<open>id\<close>, \<^verbatim>\<open>name\<close> and \<^verbatim>\<open>color\<close>; the record fields carry the entity as a prefix.

  A canvas coordinate is a JavaScript number: finite, \<^verbatim>\<open>NaN\<close>, \<^verbatim>\<open>Infinity\<close> or
  \<^verbatim>\<open>-Infinity\<close>; in a state read back from JSON it can also be \<^verbatim>\<open>null\<close>. The operations
  below store and copy coordinates and never compute with them. A finite number is carried
  as the decimal numeral that the host writes for it: a sign, the whole part, the digits of
  the fraction and, for very large and very small numbers, a signed exponent (120.5 is
  \<open>Finite False 120 [D5] None\<close>, 1.5e-7 is \<open>Finite False 1 [D5] (Some (True, 7))\<close>). The
  conversion between a double and its numeral is the host's floating-point arithmetic and
  is not modelled; the numbers 0 and -0, which the host writes alike, are one numeral.
\<close>

datatype digit = D0 | D1 | D2 | D3 | D4 | D5 | D6 | D7 | D8 | D9

datatype coordinate =
  Finite bool nat "digit list" "(bool \<times> nat) option" | NaN | Infinity | NegInfinity | Null

record item =
  item_id :: string
  item_name :: string
  category :: string
  x :: "coordinate option"
  y :: "coordinate option"

record connection =
  conn_id :: string
  sourceId :: string
  targetId :: string
  relationshipType :: string
  bidirectional :: bool

record category =
  cat_id :: string
  cat_name :: string
  cat_color :: string

record relationship_type =
  rel_id :: string
  rel_name :: string
  rel_color :: string
  dashed :: bool

record app_state =
  items :: "item list"
  connections :: "connection list"
  categories :: "category list"
  relationshipTypes :: "relationship_type list"

definition DEFAULT_CATEGORIES :: "category list" where
  "DEFAULT_CATEGORIES =
    [\<lparr>cat_id = ''ui'', cat_name = ''UI'', cat_color = ''#60a5fa''\<rparr>,
     \<lparr>cat_id = ''mechanics'', cat_name = ''Mechanics'', cat_color = ''#f472b6''\<rparr>,
     \<lparr>cat_id = ''data'', cat_name = ''Data'', cat_color = ''#4ade80''\<rparr>,
     \<lparr>cat_id = ''core'', cat_name = ''Core'', cat_color = ''#fbbf24''\<rparr>]"

definition DEFAULT_RELATIONSHIP_TYPES :: "relationship_type list" where
  "DEFAULT_RELATIONSHIP_TYPES =
    [\<lparr>rel_id = ''depends-on'', rel_name = ''depends on'', rel_color = ''#94a3b8'', dashed = False\<rparr>,
     \<lparr>rel_id = ''part-of'', rel_name = ''part of'', rel_color = ''#a78bfa'', dashed = True\<rparr>,
     \<lparr>rel_id = ''related-to'', rel_name = ''related to'', rel_color = ''#67e8f9'', dashed = True\<rparr>]"

definition STORAGE_KEY :: string where
  "STORAGE_KEY = ''item-web-builder-data''"

section \<open>Browser storage and JSON\<close>

text \<open>
  \<^verbatim>\<open>localStorage\<close> is a key-value store of strings that the browser may refuse to extend:
  \<^verbatim>\<open>setItem\<close> throws \<^verbatim>\<open>QuotaExceededError\<close> when the entry does not fit. \<^verbatim>\<open>getItem\<close>
  returns \<^verbatim>\<open>null\<close> (here \<open>None\<close>) for a key that was never written. The application
  writes a single key, so the quota bounds the size of that one entry.
\<close>

datatype exn = SyntaxError | QuotaExceededError

record storage =
  entries :: "string \<rightharpoonup> string"
  quota :: nat

definition getItem :: "storage \<Rightarrow> string \<Rightarrow> string option" where
  "getItem s k = entries s k"

definition setItem :: "storage \<Rightarrow> string \<Rightarrow> string \<Rightarrow> exn + storage" where
  "setItem s k v =
     (if length k + length v \<le> quota s
      then Inr (s\<lparr>entries := (entries s)(k \<mapsto> v)\<rparr>)
      else Inl QuotaExceededError)"

text \<open>
  \<^verbatim>\<open>JSON.parse\<close> and \<^verbatim>\<open>JSON.stringify\<close> are the host's; the functions below take them as
  parameters \<open>parse\<close> (which throws \<^verbatim>\<open>SyntaxError\<close> on malformed text) and \<open>stringify\<close>.
  Section "JSON documents" defines them on application states.

  \<^verbatim>\<open>loadData\<close>: a stored string that is truthy (non-empty) is parsed and the parsed value
  returned; a missing entry, an empty string and a parse exception all fall through to the
  default state.
\<close>

definition default_state :: app_state where
  "default_state =
     \<lparr>items = [], connections = [],
      categories = DEFAULT_CATEGORIES, relationshipTypes = DEFAULT_RELATIONSHIP_TYPES\<rparr>"

definition loadData :: "(string \<Rightarrow> exn + app_state) \<Rightarrow> storage \<Rightarrow> app_state" where
  "loadData parse s =
     (case getItem s STORAGE_KEY of
        None \<Rightarrow> default_state
      | Some saved \<Rightarrow>
          if saved \<noteq> [] then
            (case parse saved of Inr v \<Rightarrow> v | Inl e \<Rightarrow> default_state)
          else default_state)"

text \<open>\<^verbatim>\<open>saveData\<close>: a write that throws is caught and logged; the store is then unchanged.\<close>

definition saveData :: "('d \<Rightarrow> string) \<Rightarrow> 'd \<Rightarrow> storage \<Rightarrow> storage" where
  "saveData stringify d s =
     (case setItem s STORAGE_KEY (stringify d) of
        Inr s' \<Rightarrow> s'
      | Inl e \<Rightarrow> s)"

section \<open>Identifier generator\<close>

text \<open>
  \<^verbatim>\<open>`${Date.now()}-${Math.random().toString(36).substr(2, 9)}`\<close>. The clock reading \<open>now\<close>
  (milliseconds, a non-negative integer) and the text \<open>rnd\<close> of
  \<^verbatim>\<open>Math.random().toString(36)\<close> are inputs. \<open>decimal\<close> is the template literal's
  rendering of an integer; \<open>substr\<close> is \<^verbatim>\<open>String.prototype.substr(start, length)\<close> for
  non-negative arguments.
\<close>

definition digit_char :: "nat \<Rightarrow> char" where
  "digit_char d = ''0123456789'' ! d"

fun decimal :: "nat \<Rightarrow> string" where
  "decimal n = (if n < 10 then [digit_char n] else decimal (n div 10) @ [digit_char (n mod 10)])"

declare decimal.simps [simp del]

definition substr :: "string \<Rightarrow> nat \<Rightarrow> nat \<Rightarrow> string" where
  "substr s start len = take len (drop start s)"

definition generateId :: "nat \<Rightarrow> string \<Rightarrow> string" where
  "generateId now rnd = decimal now @ ''-'' @ substr rnd 2 9"

section \<open>JSON documents\<close>

text \<open>
  \<open>JSON_stringify\<close> and \<open>JSON_parse\<close> are the host's \<^verbatim>\<open>JSON.stringify\<close> and \<^verbatim>\<open>JSON.parse\<close>
  on application states. \<open>JSON_stringify\<close> writes the compact text of the state.
  \<open>JSON_parse\<close> reads a text of that layout and raises \<^verbatim>\<open>SyntaxError\<close> on any other; the
  host also accepts white space, properties in another order and documents of another
  shape, none of which \<open>saveData\<close> ever writes.
\<close>

















































section \<open>Component state\<close>

text \<open>
  The React state variables of \<^verbatim>\<open>ItemWebBuilder\<close> for the data, the selection, the
  dialogs and the inline editors, gathered in one record which every handler takes and
  returns (the pointer position, the active tab and the viewport transform, which none of
  the handlers below touches, are left out). \<^verbatim>\<open>null\<close> is \<open>None\<close>. The type of \<open>data\<close> is a parameter: \<^verbatim>\<open>importData\<close> stores whatever the parser
  returned, while the editing operations work on an \<open>app_state\<close>. Calls of the blocking
  \<^verbatim>\<open>alert\<close> are recorded, in order, in \<open>alerts\<close>.
\<close>

record pending =
  source :: item
  target :: item

record 'd ui_state =
  data :: 'd
  selectedItem :: "item option"
  selectedConnection :: "connection option"
  connectingFrom :: "item option"
  showNewItemModal :: bool
  showNewConnectionModal :: bool
  pendingConnection :: "pending option"
  editingCategory :: "string option"
  editingRelType :: "string option"
  alerts :: "string list"

text \<open>The initial values given to \<^verbatim>\<open>useState\<close>, for the loaded data \<open>d\<close>.\<close>

definition initial_state :: "'d \<Rightarrow> 'd ui_state" where
  "initial_state d =
     \<lparr>data = d, selectedItem = None, selectedConnection = None, connectingFrom = None,
      showNewItemModal = False, showNewConnectionModal = False, pendingConnection = None,
      editingCategory = None, editingRelType = None, alerts = []\<rparr>"

definition alert :: "string \<Rightarrow> 'd ui_state \<Rightarrow> 'd ui_state" where
  "alert msg st = st\<lparr>alerts := alerts st @ [msg]\<rparr>"

section \<open>Operations on the application state\<close>

definition deleteItem :: "string \<Rightarrow> app_state ui_state \<Rightarrow> app_state ui_state" where
  "deleteItem itemId st =
     st\<lparr>data := (data st)
            \<lparr>items := filter (\<lambda>i. item_id i \<noteq> itemId) (items (data st)),
             connections :=
               filter (\<lambda>c. sourceId c \<noteq> itemId \<and> targetId c \<noteq> itemId) (connections (data st))\<rparr>,
        selectedItem := None\<rparr>"

text \<open>
  \<^verbatim>\<open>addConnection\<close> returns before any state is set when the pair is already connected in
  either orientation; otherwise it appends the connection and closes the dialog.
\<close>

definition addConnection ::
  "nat \<Rightarrow> string \<Rightarrow> string \<Rightarrow> string \<Rightarrow> string \<Rightarrow> bool \<Rightarrow> app_state ui_state \<Rightarrow> app_state ui_state"
where
  "addConnection now rnd srcId tgtId relType bidir st =
     (let exists = list_ex
            (\<lambda>c. (sourceId c = srcId \<and> targetId c = tgtId) \<or>
                 (sourceId c = tgtId \<and> targetId c = srcId))
            (connections (data st))
      in if exists then st
         else
           let newConnection =
                 \<lparr>conn_id = generateId now rnd, sourceId = srcId, targetId = tgtId,
                  relationshipType = relType, bidirectional = bidir\<rparr>
           in st\<lparr>data := (data st)\<lparr>connections := connections (data st) @ [newConnection]\<rparr>,
                 showNewConnectionModal := False,
                 pendingConnection := None,
                 connectingFrom := None\<rparr>)"

definition deleteConnection :: "string \<Rightarrow> app_state ui_state \<Rightarrow> app_state ui_state" where
  "deleteConnection connId st =
     st\<lparr>data := (data st)
            \<lparr>connections := filter (\<lambda>c. conn_id c \<noteq> connId) (connections (data st))\<rparr>,
        selectedConnection := None\<rparr>"

text \<open>
  The \<^verbatim>\<open>updates\<close> argument of \<^verbatim>\<open>updateCategory\<close> and \<^verbatim>\<open>updateRelationshipType\<close> is an object
  holding any subset of the entity's properties; the spread \<^verbatim>\<open>{ ...c, ...updates }\<close> takes
  each property from \<^verbatim>\<open>updates\<close> when it is there and from \<^verbatim>\<open>c\<close> otherwise.
\<close>

record category_updates =
  upd_cat_id :: "string option"
  upd_cat_name :: "string option"
  upd_cat_color :: "string option"

record relationship_type_updates =
  upd_rel_id :: "string option"
  upd_rel_name :: "string option"
  upd_rel_color :: "string option"
  upd_dashed :: "bool option"

definition spread :: "'a \<Rightarrow> 'a option \<Rightarrow> 'a" where
  "spread old new = (case new of None \<Rightarrow> old | Some v \<Rightarrow> v)"

definition spread_category :: "category \<Rightarrow> category_updates \<Rightarrow> category" where
  "spread_category c u =
     \<lparr>cat_id = spread (cat_id c) (upd_cat_id u),
      cat_name = spread (cat_name c) (upd_cat_name u),
      cat_color = spread (cat_color c) (upd_cat_color u)\<rparr>"

definition spread_relationship_type ::
  "relationship_type \<Rightarrow> relationship_type_updates \<Rightarrow> relationship_type" where
  "spread_relationship_type r u =
     \<lparr>rel_id = spread (rel_id r) (upd_rel_id u),
      rel_name = spread (rel_name r) (upd_rel_name u),
      rel_color = spread (rel_color r) (upd_rel_color u),
      dashed = spread (dashed r) (upd_dashed u)\<rparr>"

definition updateCategory ::
  "string \<Rightarrow> category_updates \<Rightarrow> app_state ui_state \<Rightarrow> app_state ui_state" where
  "updateCategory catId updates st =
     st\<lparr>data := (data st)
            \<lparr>categories :=
               map (\<lambda>c. if cat_id c = catId then spread_category c updates else c)
                 (categories (data st))\<rparr>\<rparr>"

definition deleteCategory :: "string \<Rightarrow> app_state ui_state \<Rightarrow> app_state ui_state" where
  "deleteCategory catId st =
     (if list_ex (\<lambda>i. category i = catId) (items (data st))
      then alert ''Cannot delete category that has items. Reassign items first.'' st
      else st\<lparr>data := (data st)
                  \<lparr>categories := filter (\<lambda>c. cat_id c \<noteq> catId) (categories (data st))\<rparr>\<rparr>)"

definition updateRelationshipType ::
  "string \<Rightarrow> relationship_type_updates \<Rightarrow> app_state ui_state \<Rightarrow> app_state ui_state" where
  "updateRelationshipType relId updates st =
     st\<lparr>data := (data st)
            \<lparr>relationshipTypes :=
               map (\<lambda>r. if rel_id r = relId then spread_relationship_type r updates else r)
                 (relationshipTypes (data st))\<rparr>\<rparr>"

definition deleteRelationshipType :: "string \<Rightarrow> app_state ui_state \<Rightarrow> app_state ui_state" where
  "deleteRelationshipType relId st =
     (if list_ex (\<lambda>c. relationshipType c = relId) (connections (data st))
      then alert ''Cannot delete relationship type that is in use.'' st
      else st\<lparr>data := (data st)
                  \<lparr>relationshipTypes :=
                     filter (\<lambda>r. rel_id r \<noteq> relId) (relationshipTypes (data st))\<rparr>\<rparr>)"

section \<open>Import\<close>

text \<open>
  \<^verbatim>\<open>importData\<close> looks at \<^verbatim>\<open>event.target.files[0]\<close> and returns at once when there is none.
  The list holds, for each selected file, the text \<^verbatim>\<open>FileReader.readAsText\<close> delivers to
  \<^verbatim>\<open>onload\<close>, or \<open>None\<close> for a file that cannot be read (then \<^verbatim>\<open>onload\<close> never runs).
  \<open>importData_onload\<close> is the \<^verbatim>\<open>reader.onload\<close> callback.
\<close>

definition importData_onload :: "(string \<Rightarrow> exn + 'd) \<Rightarrow> string \<Rightarrow> 'd ui_state \<Rightarrow> 'd ui_state" where
  "importData_onload parse result st =
     (case parse result of
        Inr imported \<Rightarrow> st\<lparr>data := imported\<rparr>
      | Inl err \<Rightarrow> alert ''Failed to import data: Invalid JSON'' st)"

definition importData ::
  "(string \<Rightarrow> exn + 'd) \<Rightarrow> string option list \<Rightarrow> 'd ui_state \<Rightarrow> 'd ui_state" where
  "importData parse files st =
     (case files of
        [] \<Rightarrow> st
      | file # _ \<Rightarrow>
          (case file of
             None \<Rightarrow> st
           | Some result \<Rightarrow> importData_onload parse result st))"

section \<open>New Connection dialog\<close>

text \<open>
  The dialog is rendered only while \<^verbatim>\<open>showNewConnectionModal && pendingConnection\<close>; its
  Connect button runs \<^verbatim>\<open>onSubmit\<close>, which is the call of \<^verbatim>\<open>addConnection\<close> and nothing else,
  and its Cancel button (like a click on the backdrop) runs \<^verbatim>\<open>onCancel\<close>.
\<close>

definition newConnection_onSubmit ::
  "nat \<Rightarrow> string \<Rightarrow> string \<Rightarrow> bool \<Rightarrow> app_state ui_state \<Rightarrow> app_state ui_state" where
  "newConnection_onSubmit now rnd relType bidir st =
     (case pendingConnection st of
        None \<Rightarrow> st
      | Some p \<Rightarrow>
          if showNewConnectionModal st
          then addConnection now rnd (item_id (source p)) (item_id (target p)) relType bidir st
          else st)"

definition newConnection_onCancel :: "'d ui_state \<Rightarrow> 'd ui_state" where
  "newConnection_onCancel st =
     st\<lparr>showNewConnectionModal := False, pendingConnection := None, connectingFrom := None\<rparr>"

section \<open>An example graph\<close>

text \<open>
  Three items a, b and c, in the categories UI, Data and Data, joined by a\<rightarrow>b, c\<rightarrow>a and
  b\<rightarrow>c, with the default categories and relationship types: the concrete state on which
  the theorems below are instantiated.
\<close>

definition item_a :: item where
  "item_a = \<lparr>item_id = ''a'', item_name = ''Login form'', category = ''ui'',
              x = Some (Finite False 120 [D5] None), y = Some (Finite False 80 [] None)\<rparr>"

definition item_b :: item where
  "item_b = \<lparr>item_id = ''b'', item_name = ''Session'', category = ''data'',
              x = Some (Finite False 300 [] None),
              y = Some (Finite True 1 [D5] (Some (True, 7)))\<rparr>"

definition item_c :: item where
  "item_c = \<lparr>item_id = ''c'', item_name = ''User table'', category = ''data'',
              x = None, y = None\<rparr>"

definition example_items :: "item list" where
  "example_items = [item_a, item_b, item_c]"

definition example_connections :: "connection list" where
  "example_connections =
     [\<lparr>conn_id = ''ab'', sourceId = ''a'', targetId = ''b'',
       relationshipType = ''depends-on'', bidirectional = False\<rparr>,
      \<lparr>conn_id = ''ca'', sourceId = ''c'', targetId = ''a'',
       relationshipType = ''related-to'', bidirectional = True\<rparr>,
      \<lparr>conn_id = ''bc'', sourceId = ''b'', targetId = ''c'',
       relationshipType = ''part-of'', bidirectional = False\<rparr>]"

definition example_state :: app_state where
  "example_state =
     \<lparr>items = example_items, connections = example_connections,
      categories = DEFAULT_CATEGORIES, relationshipTypes = DEFAULT_RELATIONSHIP_TYPES\<rparr>"

text \<open>
  The same graph after a connection gesture from b to a: the New Connection dialog is open
  on that pair.
\<close>

definition example_dialog :: "app_state ui_state" where
  "example_dialog =
     (initial_state example_state)
       \<lparr>showNewConnectionModal := True,
        pendingConnection := Some \<lparr>source = item_b, target = item_a\<rparr>\<rparr>"

section \<open>Properties of decimal numerals\<close>

text \<open>\<open>decimal\<close> writes a number in base ten: reading the digits back gives the number.\<close>

lemma of_char_digit_char: "d < 10 \<Longrightarrow> (of_char (digit_char d) :: nat) = 48 + d"
proof -
  assume "d < 10"
  then have "d \<in> {0, 1, 2, 3, 4, 5, 6, 7, 8, 9}" by auto
  then show ?thesis
    unfolding digit_char_def by (elim insertE emptyE) simp_all
qed

lemma foldl_snoc_digit:
  "foldl (\<lambda>a c. 10 * a + (of_char c - 48)) (0::nat) (ds @ [c]) =
   10 * foldl (\<lambda>a c. 10 * a + (of_char c - 48)) 0 ds + (of_char c - 48)"
  by simp

lemma decimal_value: "foldl (\<lambda>a c. 10 * a + (of_char c - 48)) 0 (decimal n) = n"
proof (induction n rule: decimal.induct)
  case (1 n)
  show ?case
  proof (cases "n < 10")
    case True
    then show ?thesis by (subst decimal.simps) (simp add: of_char_digit_char)
  next
    case False
    have m: "n mod 10 < 10" by simp
    have ih: "foldl (\<lambda>a c. 10 * a + (of_char c - 48)) 0 (decimal (n div 10)) = n div 10"
      using 1 False by simp
    have "foldl (\<lambda>a c. 10 * a + (of_char c - 48)) 0 (decimal n) =
          10 * (n div 10) + (of_char (digit_char (n mod 10)) - 48)"
      using False ih by (subst decimal.simps) (simp only: if_False foldl_snoc_digit)
    also have "\<dots> = 10 * (n div 10) + n mod 10"
      by (simp add: of_char_digit_char[OF m])
    also have "\<dots> = n" by simp
    finally show ?thesis .
  qed
qed

lemma decimal_nonempty: "decimal n \<noteq> []"
  by (subst decimal.simps) simp







section \<open>Properties of the JSON documents\<close>










































section \<open>Properties of persistence\<close>

text \<open>
  C2 (default fallback). When nothing is stored under the key, or the stored text makes
  the parser throw, \<open>loadData\<close> returns the default state: no items, no connections, the
  four default categories (distinct ids; UI, Mechanics, Data, Core with their colours) and
  the three default relationship types (depends on, solid; part of and related to, dashed).
\<close>

theorem loadData_default_fallback:
  assumes "getItem s STORAGE_KEY = None \<or>
           (\<exists>saved e. getItem s STORAGE_KEY = Some saved \<and> parse saved = Inl e)"
  shows "loadData parse s = default_state \<and>
         items default_state = [] \<and> connections default_state = [] \<and>
         categories default_state = DEFAULT_CATEGORIES \<and>
         relationshipTypes default_state = DEFAULT_RELATIONSHIP_TYPES \<and>
         length DEFAULT_CATEGORIES = 4 \<and> distinct (map cat_id DEFAULT_CATEGORIES) \<and>
         map (\<lambda>c. (cat_name c, cat_color c)) DEFAULT_CATEGORIES =
           [(''UI'', ''#60a5fa''), (''Mechanics'', ''#f472b6''),
            (''Data'', ''#4ade80''), (''Core'', ''#fbbf24'')] \<and>
         length DEFAULT_RELATIONSHIP_TYPES = 3 \<and>
         map (\<lambda>r. (rel_name r, rel_color r, dashed r)) DEFAULT_RELATIONSHIP_TYPES =
           [(''depends on'', ''#94a3b8'', False), (''part of'', ''#a78bfa'', True),
            (''related to'', ''#67e8f9'', True)]"
proof -
  have load: "loadData parse s = default_state"
    using assms by (auto simp: loadData_def split: option.splits sum.splits)
  have cats: "length DEFAULT_CATEGORIES = 4 \<and> distinct (map cat_id DEFAULT_CATEGORIES) \<and>
         map (\<lambda>c. (cat_name c, cat_color c)) DEFAULT_CATEGORIES =
           [(''UI'', ''#60a5fa''), (''Mechanics'', ''#f472b6''),
            (''Data'', ''#4ade80''), (''Core'', ''#fbbf24'')]"
    by (simp add: DEFAULT_CATEGORIES_def)
  have rels: "length DEFAULT_RELATIONSHIP_TYPES = 3 \<and>
         map (\<lambda>r. (rel_name r, rel_color r, dashed r)) DEFAULT_RELATIONSHIP_TYPES =
           [(''depends on'', ''#94a3b8'', False), (''part of'', ''#a78bfa'', True),
            (''related to'', ''#67e8f9'', True)]"
    by (simp add: DEFAULT_RELATIONSHIP_TYPES_def)
  show ?thesis using load cats rels by (simp add: default_state_def)
qed

text \<open>An empty store, and a store holding a truncated document, both load as the default state.\<close>

theorem loadData_default_fallback_witness:
  "getItem \<lparr>entries = Map.empty, quota = 5000000\<rparr> STORAGE_KEY = None \<and>
   loadData (\<lambda>t. Inl SyntaxError) \<lparr>entries = Map.empty, quota = 5000000\<rparr> = default_state \<and>
   getItem \<lparr>entries = [STORAGE_KEY \<mapsto> ''{items:''], quota = 5000000\<rparr> STORAGE_KEY = Some ''{items:'' \<and>
   loadData (\<lambda>t. Inl SyntaxError) \<lparr>entries = [STORAGE_KEY \<mapsto> ''{items:''], quota = 5000000\<rparr>
     = default_state \<and>
   map cat_name (categories default_state) = [''UI'', ''Mechanics'', ''Data'', ''Core'']"
  using loadData_default_fallback
          [of "\<lparr>entries = Map.empty, quota = 5000000\<rparr>" "\<lambda>t. Inl SyntaxError"]
        loadData_default_fallback
          [of "\<lparr>entries = [STORAGE_KEY \<mapsto> ''{items:''], quota = 5000000\<rparr>" "\<lambda>t. Inl SyntaxError"]
  by (simp add: getItem_def DEFAULT_CATEGORIES_def)










text \<open>In general, a write that does not fit leaves the store as it was.\<close>

lemma saveData_write_failure:
  "quota s < length STORAGE_KEY + length (stringify S) \<Longrightarrow> saveData stringify S s = s"
  by (simp add: saveData_def setItem_def)

section \<open>Properties of the editing operations\<close>

text \<open>
  C3 (duplicate connections are rejected). If some connection already joins A and B, in
  either orientation, then \<open>addConnection\<close> from A to B and from B to A, with any
  relationship type, any flag and any generated id, both return the state they were given:
  nothing is appended to the connections.
\<close>

theorem addConnection_duplicate_noop:
  assumes "\<exists>c \<in> set (connections (data st)).
             (sourceId c = A \<and> targetId c = B) \<or> (sourceId c = B \<and> targetId c = A)"
  shows "addConnection now1 rnd1 A B relType1 bidir1 st = st \<and>
         addConnection now2 rnd2 B A relType2 bidir2 st = st"
  using assms by (auto simp: addConnection_def list_ex_iff)

text \<open>In the example graph a\<rightarrow>b exists: a second a\<rightarrow>b and a b\<rightarrow>a are both ignored.\<close>

theorem addConnection_duplicate_noop_witness:
  "addConnection 1700000000000 ''0.4fzyo82mvyr'' ''a'' ''b'' ''part-of'' True
     (initial_state example_state) = initial_state example_state \<and>
   addConnection 1700000000001 ''0.i'' ''b'' ''a'' ''related-to'' False
     (initial_state example_state) = initial_state example_state"
  using addConnection_duplicate_noop
    [of "initial_state example_state" "''a''" "''b''"
        1700000000000 "''0.4fzyo82mvyr''" "''part-of''" True
        1700000000001 "''0.i''" "''related-to''" False]
  by (simp add: initial_state_def example_state_def example_connections_def)

text \<open>
  C4 (cascade delete). \<open>deleteItem A\<close> keeps, in order, exactly the items whose id is not A
  and exactly the connections that have A neither as source nor as target; categories and
  relationship types are untouched. In particular, from the connections A\<rightarrow>B, C\<rightarrow>A, B\<rightarrow>C
  (A different from B and C) only B\<rightarrow>C is left.
\<close>

theorem deleteItem_cascade:
  "items (data (deleteItem A st)) = filter (\<lambda>i. item_id i \<noteq> A) (items (data st)) \<and>
   A \<notin> item_id ` set (items (data (deleteItem A st))) \<and>
   connections (data (deleteItem A st)) =
     filter (\<lambda>c. \<not> (sourceId c = A \<or> targetId c = A)) (connections (data st)) \<and>
   categories (data (deleteItem A st)) = categories (data st) \<and>
   relationshipTypes (data (deleteItem A st)) = relationshipTypes (data st) \<and>
   (A \<noteq> B \<and> A \<noteq> C \<and> connections (data st) = [c1, c2, c3] \<and>
    sourceId c1 = A \<and> targetId c1 = B \<and>
    sourceId c2 = C \<and> targetId c2 = A \<and>
    sourceId c3 = B \<and> targetId c3 = C
    \<longrightarrow> connections (data (deleteItem A st)) = [c3])"
  by (auto simp: deleteItem_def)

text \<open>Deleting a from the example graph leaves the connection b\<rightarrow>c alone.\<close>

theorem deleteItem_cascade_witness:
  "connections (data (deleteItem ''a'' (initial_state example_state))) =
     [\<lparr>conn_id = ''bc'', sourceId = ''b'', targetId = ''c'',
       relationshipType = ''part-of'', bidirectional = False\<rparr>] \<and>
   ''a'' \<notin> item_id ` set (items (data (deleteItem ''a'' (initial_state example_state))))"
proof -
  let ?st = "initial_state example_state"
  let ?ab = "\<lparr>conn_id = ''ab'', sourceId = ''a'', targetId = ''b'',
               relationshipType = ''depends-on'', bidirectional = False\<rparr>"
  let ?ca = "\<lparr>conn_id = ''ca'', sourceId = ''c'', targetId = ''a'',
               relationshipType = ''related-to'', bidirectional = True\<rparr>"
  let ?bc = "\<lparr>conn_id = ''bc'', sourceId = ''b'', targetId = ''c'',
               relationshipType = ''part-of'', bidirectional = False\<rparr>"
  note cascade = deleteItem_cascade [of "''a''" ?st "''b''" "''c''" ?ab ?ca ?bc]
  have conns: "connections (data ?st) = [?ab, ?ca, ?bc]"
    by (simp add: initial_state_def example_state_def example_connections_def)
  have "connections (data (deleteItem ''a'' ?st)) = [?bc]"
    using cascade conns by simp
  moreover have "''a'' \<notin> item_id ` set (items (data (deleteItem ''a'' ?st)))"
    using cascade by blast
  ultimately show ?thesis by blast
qed

text \<open>
  C5 (category delete guard). If some item's category is C, \<open>deleteCategory C\<close> changes
  nothing but the alerts, to which it adds the guard message; the data is the same. If no
  item's category is C, it removes from the categories those whose id is C, keeps the
  others in order, and raises no alert.
\<close>

theorem deleteCategory_guard:
  "((\<exists>i \<in> set (items (data st)). category i = C) \<longrightarrow>
      deleteCategory C st =
        st\<lparr>alerts := alerts st @ [''Cannot delete category that has items. Reassign items first.'']\<rparr> \<and>
      data (deleteCategory C st) = data st) \<and>
   ((\<forall>i \<in> set (items (data st)). category i \<noteq> C) \<longrightarrow>
      categories (data (deleteCategory C st)) = filter (\<lambda>c. cat_id c \<noteq> C) (categories (data st)) \<and>
      C \<notin> cat_id ` set (categories (data (deleteCategory C st))) \<and>
      deleteCategory C st =
        st\<lparr>data := (data st)\<lparr>categories := filter (\<lambda>c. cat_id c \<noteq> C) (categories (data st))\<rparr>\<rparr>)"
  by (auto simp: deleteCategory_def alert_def list_ex_iff)

text \<open>
  In the example graph item a is in the category UI, which is therefore kept, and no item
  is in Core, which is removed.
\<close>

theorem deleteCategory_guard_witness:
  "deleteCategory ''ui'' (initial_state example_state) =
     (initial_state example_state)
       \<lparr>alerts := [''Cannot delete category that has items. Reassign items first.'']\<rparr> \<and>
   map cat_id (categories (data (deleteCategory ''core'' (initial_state example_state)))) =
     [''ui'', ''mechanics'', ''data'']"
  using deleteCategory_guard [of "initial_state example_state" "''ui''"]
        deleteCategory_guard [of "initial_state example_state" "''core''"]
  by (simp add: initial_state_def example_state_def example_items_def item_a_def item_b_def
      item_c_def DEFAULT_CATEGORIES_def)

text \<open>
  C10 (updating an unknown id). When no category has id X, \<open>updateCategory X\<close> returns the
  state unchanged whatever the updates are; likewise \<open>updateRelationshipType X\<close> when no
  relationship type has id X. Both functions are total: there is no error to raise.
\<close>

theorem update_unknown_id_noop:
  "((\<forall>c \<in> set (categories (data st)). cat_id c \<noteq> X) \<longrightarrow> updateCategory X cu st = st) \<and>
   ((\<forall>r \<in> set (relationshipTypes (data st)). rel_id r \<noteq> X) \<longrightarrow>
      updateRelationshipType X ru st = st)"
proof -
  have c: "map (\<lambda>c. if cat_id c = X then spread_category c cu else c) cs = cs"
    if "\<forall>c \<in> set cs. cat_id c \<noteq> X" for cs
    using that by (induction cs) auto
  have r: "map (\<lambda>r. if rel_id r = X then spread_relationship_type r ru else r) rs = rs"
    if "\<forall>r \<in> set rs. rel_id r \<noteq> X" for rs
    using that by (induction rs) auto
  show ?thesis by (simp add: updateCategory_def updateRelationshipType_def c r)
qed

text \<open>The example graph has no category "backend" and no relationship type "blocks".\<close>

theorem update_unknown_id_noop_witness:
  "updateCategory ''backend''
     \<lparr>upd_cat_id = None, upd_cat_name = Some ''Backend'', upd_cat_color = Some ''#000000''\<rparr>
     (initial_state example_state) = initial_state example_state \<and>
   updateRelationshipType ''blocks''
     \<lparr>upd_rel_id = None, upd_rel_name = None, upd_rel_color = None, upd_dashed = Some True\<rparr>
     (initial_state example_state) = initial_state example_state"
  using update_unknown_id_noop
    [of "initial_state example_state" "''backend''"
        "\<lparr>upd_cat_id = None, upd_cat_name = Some ''Backend'', upd_cat_color = Some ''#000000''\<rparr>"
        "\<lparr>upd_rel_id = None, upd_rel_name = None, upd_rel_color = None, upd_dashed = Some True\<rparr>"]
    update_unknown_id_noop
    [of "initial_state example_state" "''blocks''"
        "\<lparr>upd_cat_id = None, upd_cat_name = Some ''Backend'', upd_cat_color = Some ''#000000''\<rparr>"
        "\<lparr>upd_rel_id = None, upd_rel_name = None, upd_rel_color = None, upd_dashed = Some True\<rparr>"]
  by (simp add: initial_state_def example_state_def DEFAULT_CATEGORIES_def
      DEFAULT_RELATIONSHIP_TYPES_def)

section \<open>Properties of import\<close>

text \<open>
  C6 (import). For a selected file whose text is \<open>txt\<close>: if the parser returns a value,
  that value becomes the data as it is, and nothing else changes; if the parser throws, the
  alert "Failed to import data: Invalid JSON" is shown and the data is what it was.
\<close>

theorem importData_replace_or_alert:
  "(parse txt = Inr v \<longrightarrow> importData parse (Some txt # more_files) st = st\<lparr>data := v\<rparr>) \<and>
   (parse txt = Inl e \<longrightarrow>
      importData parse (Some txt # more_files) st =
        st\<lparr>alerts := alerts st @ [''Failed to import data: Invalid JSON'']\<rparr> \<and>
      data (importData parse (Some txt # more_files) st) = data st)"
  by (simp add: importData_def importData_onload_def alert_def)

text \<open>A parser that accepts the text "{}" only: one import that succeeds, one that fails.\<close>

theorem importData_replace_or_alert_witness:
  "importData (\<lambda>t. if t = ''{}'' then Inr default_state else Inl SyntaxError)
     [Some ''{}''] (initial_state example_state) = initial_state default_state \<and>
   importData (\<lambda>t. if t = ''{}'' then Inr default_state else Inl SyntaxError)
     [Some ''{items:''] (initial_state example_state) =
     (initial_state example_state)\<lparr>alerts := [''Failed to import data: Invalid JSON'']\<rparr>"
  using importData_replace_or_alert
    [of "\<lambda>t. if t = ''{}'' then Inr default_state else Inl SyntaxError" "''{}''"
        default_state "[]" "initial_state example_state" SyntaxError]
    importData_replace_or_alert
    [of "\<lambda>t. if t = ''{}'' then Inr default_state else Inl SyntaxError" "''{items:''"
        default_state "[]" "initial_state example_state" SyntaxError]
  by (simp add: initial_state_def)

section \<open>Properties of the New Connection dialog\<close>

text \<open>
  When the pair is not yet connected, \<open>addConnection\<close> closes the dialog: the flag, the
  draft and the connecting-from item are all reset.
\<close>

lemma addConnection_new_clears_dialog:
  assumes "\<not> (\<exists>c \<in> set (connections (data st)).
             (sourceId c = A \<and> targetId c = B) \<or> (sourceId c = B \<and> targetId c = A))"
  shows "showNewConnectionModal (addConnection now rnd A B relType bidir st) = False \<and>
         pendingConnection (addConnection now rnd A B relType bidir st) = None \<and>
         connectingFrom (addConnection now rnd A B relType bidir st) = None"
  using assms by (auto simp: addConnection_def list_ex_iff Let_def)

text \<open>So does Cancel, always.\<close>

lemma newConnection_onCancel_clears_dialog:
  "showNewConnectionModal (newConnection_onCancel st) = False \<and>
   pendingConnection (newConnection_onCancel st) = None \<and>
   connectingFrom (newConnection_onCancel st) = None"
  by (simp add: newConnection_onCancel_def)

text \<open>
  When the pair is already connected, Connect returns through the early exit of
  \<open>addConnection\<close> and changes nothing: the dialog stays open on its draft.
\<close>

lemma newConnection_onSubmit_duplicate:
  assumes "pendingConnection st = Some p" and "showNewConnectionModal st"
    and "\<exists>c \<in> set (connections (data st)).
           (sourceId c = item_id (source p) \<and> targetId c = item_id (target p)) \<or>
           (sourceId c = item_id (target p) \<and> targetId c = item_id (source p))"
  shows "newConnection_onSubmit now rnd relType bidir st = st"
  using assms by (auto simp: newConnection_onSubmit_def addConnection_def list_ex_iff)

text \<open>
  C9 (Connect on a pair that is already connected). The specification has Connect clear
  the draft, the dialog flag and the connecting-from item once \<open>addConnection\<close> was called,
  whether or not a connection was added. In the example graph, where a\<rightarrow>b exists, with the
  dialog open on the pair (b, a), the code does not: after Connect the state is the one
  before it, the dialog flag still set and the draft still there.
\<close>

theorem connect_duplicate_keeps_dialog_open:
  "newConnection_onSubmit 1700000000000 ''0.4fzyo82mvyr'' ''part-of'' True example_dialog
     = example_dialog \<and>
   showNewConnectionModal
     (newConnection_onSubmit 1700000000000 ''0.4fzyo82mvyr'' ''part-of'' True example_dialog) \<and>
   pendingConnection
     (newConnection_onSubmit 1700000000000 ''0.4fzyo82mvyr'' ''part-of'' True example_dialog)
     = Some \<lparr>source = item_b, target = item_a\<rparr>"
  by (simp add: newConnection_onSubmit_def addConnection_def example_dialog_def
      initial_state_def example_state_def example_connections_def item_a_def item_b_def)

section \<open>Properties of the identifier generator\<close>

lemma substr_length: "length (substr s start len) \<le> len"
  by (simp add: substr_def)

lemma substr_chars: "set (substr s start len) \<subseteq> set s"
  unfolding substr_def by (meson set_take_subset set_drop_subset subset_trans)

lemma substr_fraction: "substr (''0.'' @ ds) 2 9 = take 9 ds"
  by (simp add: substr_def)

text \<open>
  C8 (identifier shape), as amended. An identifier is the clock reading in decimal, a
  hyphen, and a suffix of at most nine characters taken from the random text: when that
  text is "0." followed by the base-36 digits \<open>ds\<close>, the suffix is the first nine of \<open>ds\<close>,
  or all of them when there are fewer than nine.
\<close>

theorem generateId_shape:
  "generateId now rnd = decimal now @ ''-'' @ substr rnd 2 9 \<and>
   decimal now \<noteq> [] \<and>
   foldl (\<lambda>a c. 10 * a + (of_char c - 48)) 0 (decimal now) = now \<and>
   length (substr rnd 2 9) \<le> 9 \<and>
   set (substr rnd 2 9) \<subseteq> set rnd \<and>
   (rnd = ''0.'' @ ds \<longrightarrow>
      substr rnd 2 9 = take 9 ds \<and> length (substr rnd 2 9) = min 9 (length ds))"
proof -
  have "rnd = ''0.'' @ ds \<longrightarrow>
      substr rnd 2 9 = take 9 ds \<and> length (substr rnd 2 9) = min 9 (length ds)"
    using substr_fraction[of ds] by (simp add: min.commute)
  then show ?thesis
    using decimal_nonempty[of now] decimal_value[of now] substr_length[of rnd 2 9]
      substr_chars[of rnd 2 9]
    by (simp only: generateId_def simp_thms)
qed

text \<open>A random number with eleven base-36 digits, and one (0.5, "0.i") with a single digit.\<close>

theorem generateId_shape_witness:
  "generateId 1700000000000 ''0.4fzyo82mvyr'' = ''1700000000000-4fzyo82mv'' \<and>
   substr ''0.4fzyo82mvyr'' 2 9 = ''4fzyo82mv'' \<and>
   generateId 1700000000000 ''0.i'' = ''1700000000000-i''"
proof -
  have d: "decimal 1700000000000 = ''1700000000000''"
    by (simp add: decimal.simps digit_char_def)
  show ?thesis
    using generateId_shape [of 1700000000000 "''0.4fzyo82mvyr''" "''4fzyo82mvyr''"]
      generateId_shape [of 1700000000000 "''0.i''" "''i''"]
    by (simp add: d)
qed

text \<open>
  C8 as stated, with a suffix of at least nine characters, fails: for
  \<^verbatim>\<open>Math.random() = 0.5\<close>, whose base-36 text is "0.i", the suffix is the single
  character "i".
\<close>

theorem generateId_short_suffix:
  "generateId 1700000000000 ''0.i'' = ''1700000000000-i'' \<and>
   substr ''0.i'' 2 9 = ''i'' \<and> length (substr ''0.i'' 2 9) < 9"
  by (simp add: generateId_def substr_def decimal.simps digit_char_def)

end
